theory Spec2Isabelle
  imports Complex_Main "HOL-Library.Code_Target_Numeral"
begin

section \<open>The YOLO label loader of Practices/Final\_Exercise.py\<close>

text \<open>
  The exercise file defines one function, \<open>load_yolo_labels\<close>, and a module-level loop
  that calls it on every \<open>.txt\<close> entry of the directory \<open>.labels\<close>. The function
  contains no \<open>try\<close> statement and no validation: whatever \<open>open\<close>, \<open>int\<close>,
  \<open>float\<close> or list indexing raise leaves the function, and the loop, unhandled.

  Exceptions are values: a call returns \<open>Inl e\<close> when the Python raises \<open>e\<close> and
  \<open>Inr v\<close> when it returns \<open>v\<close>.
\<close>

datatype exn = FileNotFoundError | ValueError | IndexError

subsection \<open>Strings: \<open>str.strip\<close> and \<open>str.split\<close>\<close>

text \<open>
  A \<open>char\<close> stands for a code point below 256. In that range \<open>str.isspace\<close> holds of
  the twelve characters below; \<open>strip()\<close> and \<open>split()\<close> without arguments both use it.
\<close>

definition is_space :: "char \<Rightarrow> bool" where
  "is_space c \<longleftrightarrow>
     c \<in> set [CHR 0x09, CHR 0x0A, CHR 0x0B, CHR 0x0C, CHR 0x0D, CHR 0x1C, CHR 0x1D,
              CHR 0x1E, CHR 0x1F, CHR 0x20, CHR 0x85, CHR 0xA0]"

definition str_strip :: "string \<Rightarrow> string" where
  "str_strip s = rev (dropWhile is_space (rev (dropWhile is_space s)))"

text \<open>
  \<open>split_acc w s\<close> scans \<open>s\<close> with the word \<open>w\<close> collected so far: a whitespace
  character closes a non-empty word, runs of whitespace produce no empty words.
\<close>

fun split_acc :: "string \<Rightarrow> string \<Rightarrow> string list" where
  "split_acc w [] = (if w = [] then [] else [w])"
| "split_acc w (c # cs) =
     (if is_space c then (if w = [] then split_acc [] cs else w # split_acc [] cs)
      else split_acc (w @ [c]) cs)"

definition str_split :: "string \<Rightarrow> string list" where
  "str_split s = split_acc [] s"

subsection \<open>Numbers: \<open>int(str)\<close> and \<open>float(str)\<close>\<close>

text \<open>
  Both built-ins follow the grammar of the language reference for a string argument:
  surrounding whitespace is dropped, a sign may come first, and a group of digits may
  hold single underscores between two digits. They raise \<open>ValueError\<close> on every other
  string, which is \<open>None\<close> here. \<open>int\<close> also raises \<open>ValueError\<close> on a string of more
  than \<open>max_str_digits\<close> digits, 4300 unless the interpreter is configured otherwise;
  underscores and the sign do not count. \<open>float\<close> has no such limit.
\<close>

definition is_digit :: "char \<Rightarrow> bool" where
  "is_digit c \<longleftrightarrow> c \<in> set ''0123456789''"

definition digit_val :: "char \<Rightarrow> nat" where
  "digit_val c = of_char c - 48"

fun digitpart :: "string \<Rightarrow> bool" where
  "digitpart [] = False"
| "digitpart [c] = is_digit c"
| "digitpart (c # d # cs) =
     (is_digit c \<and> (if d = CHR ''_'' then digitpart cs else digitpart (d # cs)))"

definition digits_val :: "string \<Rightarrow> nat" where
  "digits_val s = foldl (\<lambda>n c. 10 * n + digit_val c) 0 (filter is_digit s)"

definition unsign :: "string \<Rightarrow> bool \<times> string" where
  "unsign s =
     (case s of
        [] \<Rightarrow> (False, [])
      | c # cs \<Rightarrow>
          if c = CHR ''-'' then (True, cs)
          else if c = CHR ''+'' then (False, cs)
          else (False, s))"

definition signed_digits :: "string \<Rightarrow> int option" where
  "signed_digits s =
     (case unsign s of
        (neg, d) \<Rightarrow>
          if digitpart d then Some (if neg then - int (digits_val d) else int (digits_val d))
          else None)"

definition max_str_digits :: nat where
  "max_str_digits = 4300"

definition py_int :: "string \<Rightarrow> int option" where
  "py_int s =
     (if max_str_digits < length (filter is_digit (str_strip s)) then None
      else signed_digits (str_strip s))"

text \<open>
  A float is an IEEE 754 double: a finite value with its sign (so that \<open>-0.0\<close> is told
  from \<open>0.0\<close>), an infinity with its sign, or NaN. The magnitude of a finite value is
  kept as the rational number it is.
\<close>

datatype pyfloat = Finite bool rat | Infinity bool | NaN

fun fneg :: "pyfloat \<Rightarrow> pyfloat" where
  "fneg (Finite sg r) = Finite (\<not> sg) r"
| "fneg (Infinity sg) = Infinity (\<not> sg)"
| "fneg NaN = NaN"

text \<open>
  \<open>double a b\<close> is the double that the fraction \<open>a / b\<close> rounds to, as \<open>float\<close> rounds
  a decimal literal: to the nearest value with a 53-bit significand and an exponent of
  at least -1022 (below that the spacing stays that of the subnormals), ties to the even
  significand, and to infinity from \<open>2 ^ 1024\<close> on. \<open>bits n\<close> is the length of \<open>n\<close> in
  binary, \<open>floor_log2 a b\<close> the exponent of the leading bit of \<open>a / b\<close>.
\<close>

fun bits :: "nat \<Rightarrow> nat" where
  "bits n = (if n = 0 then 0 else Suc (bits (n div 2)))"

definition pow2 :: "int \<Rightarrow> rat" where
  "pow2 k = (if 0 \<le> k then 2 ^ nat k else 1 / 2 ^ nat (- k))"

definition shift2 :: "nat \<Rightarrow> nat \<Rightarrow> int \<Rightarrow> nat \<times> nat" where
  "shift2 a b k = (if 0 \<le> k then (a * 2 ^ nat k, b) else (a, b * 2 ^ nat (- k)))"

definition round_half_even :: "nat \<Rightarrow> nat \<Rightarrow> nat" where
  "round_half_even n d =
     (let q = n div d; r = n mod d
      in if 2 * r < d then q
         else if d < 2 * r then q + 1
         else if even q then q else q + 1)"

definition floor_log2 :: "nat \<Rightarrow> nat \<Rightarrow> int" where
  "floor_log2 a b =
     (let d = int (bits a) - int (bits b)
      in case shift2 a b (- d) of (n, m) \<Rightarrow> if m \<le> n then d else d - 1)"

definition double :: "nat \<Rightarrow> nat \<Rightarrow> pyfloat" where
  "double a b =
     (if a = 0 then Finite False 0
      else
        (let e = floor_log2 a b;
             t = max e (- 1022) - 52;
             n = (case shift2 a b (- t) of (n, m) \<Rightarrow> round_half_even n m);
             v = of_int (int n) * pow2 t
         in if pow2 1024 \<le> v then Infinity False else Finite False v))"

definition lower :: "char \<Rightarrow> char" where
  "lower c =
     (if c = CHR ''I'' then CHR ''i'' else if c = CHR ''N'' then CHR ''n''
      else if c = CHR ''F'' then CHR ''f'' else if c = CHR ''T'' then CHR ''t''
      else if c = CHR ''Y'' then CHR ''y'' else if c = CHR ''A'' then CHR ''a''
      else c)"

definition split_at :: "(char \<Rightarrow> bool) \<Rightarrow> string \<Rightarrow> string \<times> string option" where
  "split_at P s =
     (takeWhile (\<lambda>c. \<not> P c) s,
      case dropWhile (\<lambda>c. \<not> P c) s of [] \<Rightarrow> None | _ # r \<Rightarrow> Some r)"

definition number_ok :: "string \<Rightarrow> string option \<Rightarrow> bool" where
  "number_ok ip fp =
     (case fp of
        None \<Rightarrow> digitpart ip
      | Some f \<Rightarrow>
          if f = [] then digitpart ip
          else (ip = [] \<or> digitpart ip) \<and> digitpart f)"

text \<open>The decimal \<open>m * 10 ^ e\<close> as a fraction.\<close>

definition decimal :: "nat \<Rightarrow> int \<Rightarrow> nat \<times> nat" where
  "decimal m e = (if 0 \<le> e then (m * 10 ^ nat e, 1) else (m, 10 ^ nat (- e)))"

definition py_float :: "string \<Rightarrow> pyfloat option" where
  "py_float s =
     (case unsign (str_strip s) of
        (neg, body) \<Rightarrow>
          if map lower body = ''inf'' \<or> map lower body = ''infinity'' then Some (Infinity neg)
          else if map lower body = ''nan'' then Some NaN
          else
            (case split_at (\<lambda>c. c = CHR ''e'' \<or> c = CHR ''E'') body of
               (m, ex) \<Rightarrow>
                 (case split_at (\<lambda>c. c = CHR ''.'') m of
                    (ip, fp) \<Rightarrow>
                      if \<not> number_ok ip fp then None
                      else
                        (case (case ex of None \<Rightarrow> Some 0 | Some x \<Rightarrow> signed_digits x) of
                           None \<Rightarrow> None
                         | Some x \<Rightarrow>
                             let f = (case fp of None \<Rightarrow> [] | Some f \<Rightarrow> filter is_digit f);
                                 v = (case decimal (digits_val (ip @ f)) (x - int (length f)) of
                                        (a, b) \<Rightarrow> double a b)
                             in Some (if neg then fneg v else v)))))"

text \<open>
  The range [0.0, 1.0] of the format: \<open>0.0 <= v <= 1.0\<close>, which holds of \<open>-0.0\<close> and of
  no infinity or NaN.
\<close>

definition in_unit :: "pyfloat \<Rightarrow> bool" where
  "in_unit v =
     (case v of
        Finite sg r \<Rightarrow> if sg then r = 0 else r \<le> 1
      | _ \<Rightarrow> False)"

subsection \<open>\<open>load_yolo_labels\<close>\<close>

type_synonym label = "int \<times> (pyfloat \<times> pyfloat) list"

text \<open>
  The comprehension \<open>[(float(parts[i]), float(parts[i + 1])) for i in range(1, len(parts), 2)]\<close>
  started at index \<open>i\<close>. The tuple is evaluated left to right: \<open>float(parts[i])\<close> first, then
  the read of \<open>parts[i + 1]\<close>, which raises \<open>IndexError\<close> past the end, then its \<open>float\<close>.
\<close>

function coords_from :: "string list \<Rightarrow> nat \<Rightarrow> exn + (pyfloat \<times> pyfloat) list" where
  "coords_from parts i =
     (if length parts \<le> i then Inr []
      else
        (case py_float (parts ! i) of
           None \<Rightarrow> Inl ValueError
         | Some x \<Rightarrow>
             if length parts \<le> i + 1 then Inl IndexError
             else
               (case py_float (parts ! (i + 1)) of
                  None \<Rightarrow> Inl ValueError
                | Some y \<Rightarrow>
                    (case coords_from parts (i + 2) of
                       Inl e \<Rightarrow> Inl e
                     | Inr ps \<Rightarrow> Inr ((x, y) # ps)))))"
  by pat_completeness auto
termination
  by (relation "measure (\<lambda>(parts, i). length parts - i)") auto

text \<open>
  The loop body for a line that is not blank: the tuple that \<open>labels.append\<close> receives,
  or the exception raised on the way. \<open>parts[0]\<close> on an empty list would raise
  \<open>IndexError\<close>.
\<close>

definition parse_line :: "string \<Rightarrow> exn + label" where
  "parse_line line =
     (let parts = str_split (str_strip line) in
      case parts of
        [] \<Rightarrow> Inl IndexError
      | p0 # _ \<Rightarrow>
          (case py_int p0 of
             None \<Rightarrow> Inl ValueError
           | Some cls_id \<Rightarrow>
               (case coords_from parts 1 of
                  Inl e \<Rightarrow> Inl e
                | Inr coords \<Rightarrow> Inr (cls_id, coords))))"

text \<open>
  The guard \<open>not line.strip()\<close> of the loop, and the \<open>for line in f\<close> loop itself with
  the list \<open>labels\<close> built so far.
\<close>

definition blank :: "string \<Rightarrow> bool" where
  "blank line \<longleftrightarrow> str_strip line = []"

fun read_lines :: "string list \<Rightarrow> label list \<Rightarrow> exn + label list" where
  "read_lines [] labels = Inr labels"
| "read_lines (line # rest) labels =
     (if blank line then read_lines rest labels
      else
        (case parse_line line of
           Inl e \<Rightarrow> Inl e
         | Inr l \<Rightarrow> read_lines rest (labels @ [l])))"

text \<open>
  The file system maps a path to the lines of the file there; \<open>open\<close> of a path that
  names no file raises \<open>FileNotFoundError\<close>.
\<close>

type_synonym files = "string \<rightharpoonup> string list"

definition load_yolo_labels :: "files \<Rightarrow> string \<Rightarrow> exn + label list" where
  "load_yolo_labels fs txt_path =
     (case fs txt_path of
        None \<Rightarrow> Inl FileNotFoundError
      | Some lines \<Rightarrow> read_lines lines [])"

subsection \<open>Vocabulary of the statements\<close>

text \<open>
  \<open>pairs\<close> groups a flat list of coordinate values into points. \<open>floats ts vs\<close> says
  that every token of \<open>ts\<close> is accepted by \<open>float\<close>, with the values \<open>vs\<close>.
  \<open>loads ls rs\<close> says that every line of \<open>ls\<close> that is not blank gets through the loop
  body, and that \<open>rs\<close> are the tuples appended for them, in line order.
\<close>

fun pairs :: "'a list \<Rightarrow> ('a \<times> 'a) list" where
  "pairs (x # y # r) = (x, y) # pairs r"
| "pairs _ = []"

definition floats :: "string list \<Rightarrow> pyfloat list \<Rightarrow> bool" where
  "floats ts vs \<longleftrightarrow> list_all2 (\<lambda>t v. py_float t = Some v) ts vs"

definition loads :: "string list \<Rightarrow> label list \<Rightarrow> bool" where
  "loads ls rs \<longleftrightarrow>
     list_all2 (\<lambda>l r. parse_line l = Inr r) (filter (\<lambda>l. \<not> blank l) ls) rs"

subsection \<open>The module-level loop over the directory\<close>

text \<open>
  What the loop prints is kept as a list of events, one for each \<open>print\<close>; the second
  component of the result is the exception that ended the loop, if one did.
\<close>

datatype event = Loading string | Loaded "label list"

definition endswith :: "string \<Rightarrow> string \<Rightarrow> bool" where
  "endswith s suf \<longleftrightarrow> length suf \<le> length s \<and> drop (length s - length suf) s = suf"

definition path_join :: "string \<Rightarrow> string \<Rightarrow> string" where
  "path_join a b =
     (if b \<noteq> [] \<and> hd b = CHR ''/'' then b
      else if a = [] \<or> last a = CHR ''/'' then a @ b
      else a @ ''/'' @ b)"

definition labels_dir :: string where
  "labels_dir = ''.labels''"

fun load_all :: "files \<Rightarrow> string list \<Rightarrow> event list \<Rightarrow> event list \<times> exn option" where
  "load_all fs [] out = (out, None)"
| "load_all fs (txt_path # rest) out =
     (if endswith txt_path ''.txt'' then
        (let full_path = path_join labels_dir txt_path;
             out1 = out @ [Loading full_path]
         in case load_yolo_labels fs full_path of
              Inl e \<Rightarrow> (out1, Some e)
            | Inr labels \<Rightarrow> load_all fs rest (out1 @ [Loaded labels]))
      else load_all fs rest out)"

text \<open>\<open>os.listdir\<close> of a path that names no directory raises \<open>FileNotFoundError\<close>.\<close>

definition main :: "files \<Rightarrow> (string \<rightharpoonup> string list) \<Rightarrow> event list \<times> exn option" where
  "main fs listdir =
     (case listdir labels_dir of
        None \<Rightarrow> ([], Some FileNotFoundError)
      | Some entries \<Rightarrow> load_all fs entries [])"

text \<open>
  For the statements about the loop: the entries it selects, that each of a list of
  entries loads, and what is printed for entries that load.
\<close>

definition txt_entries :: "string list \<Rightarrow> string list" where
  "txt_entries es = filter (\<lambda>p. endswith p ''.txt'') es"

definition loaded :: "files \<Rightarrow> string list \<Rightarrow> label list list \<Rightarrow> bool" where
  "loaded fs ps res \<longleftrightarrow>
     list_all2 (\<lambda>p ls. load_yolo_labels fs (path_join labels_dir p) = Inr ls) ps res"

fun printed :: "(string \<times> label list) list \<Rightarrow> event list" where
  "printed [] = []"
| "printed ((p, ls) # r) = Loading (path_join labels_dir p) # Loaded ls # printed r"

section \<open>Properties of the model\<close>

subsection \<open>The comprehension and the loop body\<close>

text \<open>
  The equation of \<open>coords_from\<close> rewrites itself, so it is unfolded by hand. The
  comprehension raises \<open>ValueError\<close> when some token from index \<open>i\<close> on is rejected by
  \<open>float\<close>, else \<open>IndexError\<close> when the number of those tokens is odd, and else returns
  their values, paired.
\<close>

declare coords_from.simps [simp del]

declare bits.simps [simp del]

lemma coords_from_char:
  "coords_from parts i =
     (if \<exists>t \<in> set (drop i parts). py_float t = None then Inl ValueError
      else if odd (length parts - i) then Inl IndexError
      else Inr (pairs (map (the \<circ> py_float) (drop i parts))))"
proof (induction parts i rule: coords_from.induct)
  case (1 parts i)
  show ?case
  proof (cases "length parts \<le> i")
    case True
    then show ?thesis by (simp add: coords_from.simps [of parts i])
  next
    case False
    then have d0: "drop i parts = parts ! i # drop (Suc i) parts"
      by (simp add: Cons_nth_drop_Suc)
    show ?thesis
    proof (cases "py_float (parts ! i)")
      case None
      with False d0 show ?thesis by (simp add: coords_from.simps [of parts i])
    next
      case (Some x)
      note sx = Some
      show ?thesis
      proof (cases "length parts \<le> i + 1")
        case True
        with False have "length parts - i = 1" by simp
        moreover from True have "drop (Suc i) parts = []" by simp
        ultimately show ?thesis using False d0 sx True
          by (simp add: coords_from.simps [of parts i])
      next
        case l2: False
        then have d1: "drop (Suc i) parts = parts ! (i + 1) # drop (i + 2) parts"
          by (simp add: Cons_nth_drop_Suc)
        show ?thesis
        proof (cases "py_float (parts ! (i + 1))")
          case None
          with False l2 d0 d1 sx show ?thesis by (simp add: coords_from.simps [of parts i])
        next
          case (Some y)
          have ih: "coords_from parts (Suc (Suc i)) =
            (if \<exists>t \<in> set (drop (Suc (Suc i)) parts). py_float t = None then Inl ValueError
             else if odd (length parts - Suc (Suc i)) then Inl IndexError
             else Inr (pairs (map (the \<circ> py_float) (drop (Suc (Suc i)) parts))))"
            using "1.IH" [OF False sx l2 Some] by simp
          have par: "odd (length parts - i) = odd (length parts - Suc (Suc i))"
            using l2 by (simp add: even_diff_nat)
          have d1': "drop (Suc i) parts = parts ! Suc i # drop (Suc (Suc i)) parts"
            using d1 by simp
          show ?thesis
            using False l2 sx Some
            by (simp add: coords_from.simps [of parts i] ih d0 d1' par del: even_Suc_Suc_iff)
        qed
      qed
    qed
  qed
qed


lemma floats_the: "floats ts vs \<Longrightarrow> map (the \<circ> py_float) ts = vs"
  unfolding floats_def by (induction rule: list_all2_induct) auto

lemma floats_all: "floats ts vs \<Longrightarrow> \<forall>t \<in> set ts. py_float t \<noteq> None"
  unfolding floats_def by (induction rule: list_all2_induct) auto



lemma parse_line_tokens:
  assumes "str_split (str_strip line) = t # ts"
  shows "parse_line line =
     (case py_int t of
        None \<Rightarrow> Inl ValueError
      | Some c \<Rightarrow>
          if \<exists>u \<in> set ts. py_float u = None then Inl ValueError
          else if odd (length ts) then Inl IndexError
          else Inr (c, pairs (map (the \<circ> py_float) ts)))"
  using assms by (auto simp add: parse_line_def coords_from_char split: option.splits)

lemma parse_line_ok:
  assumes "str_split (str_strip line) = t # ts" and "py_int t = Some c"
    and "floats ts vs" and "even (length ts)"
  shows "parse_line line = Inr (c, pairs vs)"
  using assms floats_all [OF assms(3)] floats_the [OF assms(3)]
  by (simp add: parse_line_tokens [OF assms(1)])

text \<open>
  A line is blank exactly when it holds whitespace only, and a line that is not blank
  has a first token: \<open>parts[0]\<close> never raises.
\<close>

lemma str_strip_Nil: "str_strip s = [] \<longleftrightarrow> (\<forall>c \<in> set s. is_space c)"
proof
  assume "\<forall>c \<in> set s. is_space c"
  then have "dropWhile is_space s = []" by (simp add: dropWhile_eq_Nil_conv)
  then show "str_strip s = []" by (simp add: str_strip_def del: dropWhile_eq_Nil_conv)
next
  assume e: "str_strip s = []"
  show "\<forall>c \<in> set s. is_space c"
  proof (rule ccontr)
    assume "\<not> (\<forall>c \<in> set s. is_space c)"
    then have ne: "dropWhile is_space s \<noteq> []" by (simp add: dropWhile_eq_Nil_conv)
    then have "\<not> is_space (hd (dropWhile is_space s))" by (rule hd_dropWhile)
    moreover have "hd (dropWhile is_space s) \<in> set (rev (dropWhile is_space s))"
      using ne by simp
    ultimately have "dropWhile is_space (rev (dropWhile is_space s)) \<noteq> []"
      by (auto simp: dropWhile_eq_Nil_conv)
    with e show False by (simp add: str_strip_def)
  qed
qed

lemma str_strip_has_nonspace:
  assumes "str_strip s \<noteq> []"
  shows "\<exists>c \<in> set (str_strip s). \<not> is_space c"
proof -
  let ?x = "rev (dropWhile is_space s)"
  from assms have ne: "dropWhile is_space ?x \<noteq> []" by (simp add: str_strip_def)
  then have "\<not> is_space (hd (dropWhile is_space ?x))" by (rule hd_dropWhile)
  moreover have "hd (dropWhile is_space ?x) \<in> set (str_strip s)"
    using ne by (simp add: str_strip_def)
  ultimately show ?thesis by blast
qed

lemma split_acc_Nil: "split_acc w s = [] \<longleftrightarrow> w = [] \<and> (\<forall>c \<in> set s. is_space c)"
  by (induction s arbitrary: w) auto

lemma nonblank_has_token: "\<not> blank line \<Longrightarrow> str_split (str_strip line) \<noteq> []"
  using str_strip_has_nonspace [of line] by (auto simp: blank_def str_split_def split_acc_Nil)

lemma tokens_nonblank: "str_split (str_strip line) = t # ts \<Longrightarrow> \<not> blank line"
  by (auto simp: blank_def str_split_def)

lemma loads_Nil: "loads [] rs \<longleftrightarrow> rs = []"
  by (simp add: loads_def)

lemma loads_append: "loads xs rs \<Longrightarrow> loads ys ss \<Longrightarrow> loads (xs @ ys) (rs @ ss)"
  by (simp add: loads_def list_all2_appendI)

lemma loads_single: "\<not> blank l \<Longrightarrow> parse_line l = Inr r \<Longrightarrow> loads [l] [r]"
  by (simp add: loads_def)

lemma loads_length: "loads ls rs \<Longrightarrow> length rs = length (filter (\<lambda>l. \<not> blank l) ls)"
  by (simp add: loads_def list_all2_lengthD)

lemma read_lines_loads: "loads ls rs \<Longrightarrow> read_lines ls acc = Inr (acc @ rs)"
proof (induction ls arbitrary: acc rs)
  case Nil
  then show ?case by (simp add: loads_def)
next
  case (Cons l ls)
  show ?case
  proof (cases "blank l")
    case True
    with Cons.prems have "loads ls rs" by (simp add: loads_def)
    with True Cons.IH show ?thesis by simp
  next
    case False
    with Cons.prems obtain r rs' where rs: "rs = r # rs'" and r: "parse_line l = Inr r"
      and rest: "loads ls rs'"
      by (auto simp: loads_def list_all2_Cons1)
    from Cons.IH [OF rest, of "acc @ [r]"] False r rs show ?thesis by simp
  qed
qed

lemma read_lines_first_failure:
  assumes "loads pre rs" and "\<not> blank l" and "parse_line l = Inl e"
  shows "read_lines (pre @ l # post) acc = Inl e"
  using assms(1)
proof (induction pre arbitrary: acc rs)
  case Nil
  with assms(2,3) show ?case by simp
next
  case (Cons x pre)
  show ?case
  proof (cases "blank x")
    case True
    with Cons.prems have "loads pre rs" by (simp add: loads_def)
    with True Cons.IH show ?thesis by simp
  next
    case False
    with Cons.prems obtain r rs' where r: "parse_line x = Inr r" and rest: "loads pre rs'"
      by (auto simp: loads_def list_all2_Cons1)
    from Cons.IH [OF rest, of "acc @ [r]"] False r show ?thesis by simp
  qed
qed

lemma load_line_in_context:
  assumes "fs p = Some (pre @ line # post)" and "loads pre ra" and "loads post rb"
    and "\<not> blank line" and "parse_line line = Inr r"
  shows "load_yolo_labels fs p = Inr (ra @ r # rb)"
proof -
  have "loads (pre @ [line] @ post) (ra @ [r] @ rb)"
    using assms(2-5) by (intro loads_append loads_single)
  then show ?thesis
    using assms(1) by (simp add: load_yolo_labels_def read_lines_loads)
qed

lemma load_failure_in_context:
  assumes "fs p = Some (pre @ line # post)" and "loads pre rs"
    and "\<not> blank line" and "parse_line line = Inl e"
  shows "load_yolo_labels fs p = Inl e"
  using assms by (simp add: load_yolo_labels_def read_lines_first_failure)



subsection \<open>The directory loop\<close>

lemma load_all_loaded:
  "loaded fs (txt_entries es) res \<Longrightarrow>
   load_all fs es out = (out @ printed (zip (txt_entries es) res), None)"
proof (induction es arbitrary: out res)
  case Nil
  then show ?case by (simp add: txt_entries_def loaded_def)
next
  case (Cons e es)
  show ?case
  proof (cases "endswith e ''.txt''")
    case False
    with Cons.prems have "loaded fs (txt_entries es) res" by (simp add: txt_entries_def)
    from Cons.IH [OF this, of out] False show ?thesis by (simp add: txt_entries_def)
  next
    case True
    with Cons.prems obtain ls res' where res: "res = ls # res'"
      and ls: "load_yolo_labels fs (path_join labels_dir e) = Inr ls"
      and rest: "loaded fs (txt_entries es) res'"
      by (auto simp: txt_entries_def loaded_def list_all2_Cons1)
    from Cons.IH [OF rest, of "out @ [Loading (path_join labels_dir e), Loaded ls]"] True ls res
    show ?thesis by (simp add: txt_entries_def)
  qed
qed

lemma load_all_first_failure:
  assumes "loaded fs (txt_entries pre) res" and "endswith e ''.txt''"
    and "load_yolo_labels fs (path_join labels_dir e) = Inl x"
  shows "load_all fs (pre @ e # post) out =
         (out @ printed (zip (txt_entries pre) res) @ [Loading (path_join labels_dir e)], Some x)"
  using assms(1)
proof (induction pre arbitrary: out res)
  case Nil
  with assms(2,3) show ?case by (simp add: txt_entries_def loaded_def)
next
  case (Cons a pre)
  show ?case
  proof (cases "endswith a ''.txt''")
    case False
    with Cons.prems have "loaded fs (txt_entries pre) res" by (simp add: txt_entries_def)
    from Cons.IH [OF this, of out] False show ?thesis by (simp add: txt_entries_def)
  next
    case True
    with Cons.prems obtain ls res' where res: "res = ls # res'"
      and ls: "load_yolo_labels fs (path_join labels_dir a) = Inr ls"
      and rest: "loaded fs (txt_entries pre) res'"
      by (auto simp: txt_entries_def loaded_def list_all2_Cons1)
    from Cons.IH [OF rest, of "out @ [Loading (path_join labels_dir a), Loaded ls]"] True ls res
    show ?thesis by (simp add: txt_entries_def)
  qed
qed

subsection \<open>Evaluated examples\<close>

lemmas lex_defs = str_split_def str_strip_def is_space_def

lemmas num_defs = py_int_def py_float_def signed_digits_def unsign_def str_strip_def
  is_space_def is_digit_def digits_val_def digit_val_def lower_def split_at_def
  number_ok_def decimal_def max_str_digits_def

lemma int_tokens:
  "py_int ''0'' = Some 0" "py_int ''1'' = Some 1" "py_int ''2'' = Some 2"
  "py_int ''5'' = Some 5" "py_int ''-1'' = Some (- 1)" "py_int ''abc'' = None"
  "py_int ''x'' = None"
  by (simp_all add: num_defs)

lemma float_tokens:
  "py_float ''0.1'' = Some (double 1 10)" "py_float ''0.2'' = Some (double 2 10)"
  "py_float ''0.3'' = Some (double 3 10)" "py_float ''0.4'' = Some (double 4 10)"
  "py_float ''0.5'' = Some (double 5 10)" "py_float ''0.6'' = Some (double 6 10)"
  "py_float ''1.5'' = Some (double 15 10)" "py_float ''x'' = None"
  by (simp_all add: num_defs)

lemmas double_defs = double_def floor_log2_def shift2_def round_half_even_def pow2_def
  bits.simps in_unit_def

lemma unit_examples:
  "in_unit (double 1 10)" "in_unit (double 2 10)" "in_unit (double 3 10)"
  "in_unit (double 4 10)" "in_unit (double 5 10)" "in_unit (double 6 10)"
  "\<not> in_unit (double 15 10)" "in_unit (double (Suc 0) 10)"
  by (simp_all add: double_defs)

lemma split_examples:
  "str_split (str_strip ''0 0.1 0.2 0.3 0.4 0.5 0.6'') =
     [''0'', ''0.1'', ''0.2'', ''0.3'', ''0.4'', ''0.5'', ''0.6'']"
  "str_split (str_strip ''abc 0.1 0.2 0.3 0.4 0.5 0.6'') =
     [''abc'', ''0.1'', ''0.2'', ''0.3'', ''0.4'', ''0.5'', ''0.6'']"
  "str_split (str_strip ''-1 0.1 0.2 0.3 0.4 0.5 0.6'') =
     [''-1'', ''0.1'', ''0.2'', ''0.3'', ''0.4'', ''0.5'', ''0.6'']"
  "str_split (str_strip ''0 0.1 0.2 0.3'') = [''0'', ''0.1'', ''0.2'', ''0.3'']"
  "str_split (str_strip ''0 0.1 x 0.3'') = [''0'', ''0.1'', ''x'', ''0.3'']"
  "str_split (str_strip ''2 0.1 0.2 1.5 0.3'') = [''2'', ''0.1'', ''0.2'', ''1.5'', ''0.3'']"
  "str_split (str_strip ''1 0.1 0.2'') = [''1'', ''0.1'', ''0.2'']"
  "str_split (str_strip ''5'') = [''5'']"
  "str_split (str_strip ''x'') = [''x'']"
  "str_split (str_strip ''-1 0.1'') = [''-1'', ''0.1'']"
  by (simp_all add: lex_defs)

lemma blank_examples: "blank []" "blank ''  ''" "blank [CHR 0x0A]"
  by (simp_all add: blank_def lex_defs)

lemma line_valid:
  "parse_line ''0 0.1 0.2 0.3 0.4 0.5 0.6'' =
     Inr (0, [(double 1 10, double 2 10), (double 3 10, double 4 10),
              (double 5 10, double 6 10)])"
  by (simp add: parse_line_tokens [OF split_examples(1)] int_tokens float_tokens)

lemma line_bad_class:
  "parse_line ''abc 0.1 0.2 0.3 0.4 0.5 0.6'' = Inl ValueError"
  by (simp add: parse_line_tokens [OF split_examples(2)] int_tokens float_tokens)

lemma line_odd: "parse_line ''0 0.1 0.2 0.3'' = Inl IndexError"
  by (simp add: parse_line_tokens [OF split_examples(4)] int_tokens float_tokens)

lemma line_bad_float: "parse_line ''0 0.1 x 0.3'' = Inl ValueError"
  by (simp add: parse_line_tokens [OF split_examples(5)] int_tokens float_tokens)

lemma line_no_number: "parse_line ''x'' = Inl ValueError"
  by (simp add: parse_line_tokens [OF split_examples(9)] int_tokens)

lemma line_negative_odd: "parse_line ''-1 0.1'' = Inl IndexError"
  by (simp add: parse_line_tokens [OF split_examples(10)] int_tokens float_tokens)

lemma line_class_id: "parse_line ''5'' = Inr (5, [])"
  by (simp add: parse_line_tokens [OF split_examples(8)] int_tokens)

lemma line_negative:
  "parse_line ''-1 0.1 0.2 0.3 0.4 0.5 0.6'' =
     Inr (- 1, [(double 1 10, double 2 10), (double 3 10, double 4 10),
                (double 5 10, double 6 10)])"
  by (simp add: parse_line_tokens [OF split_examples(3)] int_tokens float_tokens)

text \<open>A class id of 4301 digits: the line splits as any other, and \<open>int\<close> refuses it.\<close>

lemma split_acc_word:
  "\<forall>c \<in> set u. \<not> is_space c \<Longrightarrow> split_acc w (u @ s) = split_acc (w @ u) s"
  by (induction u arbitrary: w) auto

lemma str_strip_keeps:
  assumes "s \<noteq> []" and "\<not> is_space (hd s)" and "\<not> is_space (last s)"
  shows "str_strip s = s"
proof -
  from assms(1,2) have "dropWhile is_space s = s" by (cases s) auto
  moreover from assms(1,3) have "dropWhile is_space (rev s) = rev s"
    by (cases "rev s") (auto simp: last_rev [symmetric] simp del: last_rev)
  ultimately show ?thesis by (simp add: str_strip_def)
qed

lemma long_class_id_rejected: "py_int (replicate 4301 CHR ''1'') = None"
proof -
  have "str_strip (replicate 4301 CHR ''1'') = replicate 4301 CHR ''1''"
    by (rule str_strip_keeps) (simp_all add: is_space_def)
  then show ?thesis by (simp add: py_int_def max_str_digits_def is_digit_def)
qed

lemma split_long_class_id:
  "str_split (str_strip (replicate 4301 CHR ''1'' @ '' 0.1 0.2 0.3 0.4 0.5 0.6'')) =
     [replicate 4301 CHR ''1'', ''0.1'', ''0.2'', ''0.3'', ''0.4'', ''0.5'', ''0.6'']"
proof -
  have "str_strip (replicate 4301 CHR ''1'' @ '' 0.1 0.2 0.3 0.4 0.5 0.6'') =
        replicate 4301 CHR ''1'' @ '' 0.1 0.2 0.3 0.4 0.5 0.6''"
    by (rule str_strip_keeps) (simp_all add: is_space_def hd_append)
  moreover have "split_acc [] (replicate 4301 CHR ''1'' @ '' 0.1 0.2 0.3 0.4 0.5 0.6'') =
        split_acc ([] @ replicate 4301 CHR ''1'') '' 0.1 0.2 0.3 0.4 0.5 0.6''"
    by (rule split_acc_word) (simp add: is_space_def)
  ultimately show ?thesis by (simp add: str_split_def is_space_def)
qed

lemma line_long_class_id:
  "parse_line (replicate 4301 CHR ''1'' @ '' 0.1 0.2 0.3 0.4 0.5 0.6'') = Inl ValueError"
  by (simp add: parse_line_tokens [OF split_long_class_id] long_class_id_rejected)

lemma loads_valid:
  "loads [''0 0.1 0.2 0.3 0.4 0.5 0.6'']
     [(0, [(double 1 10, double 2 10), (double 3 10, double 4 10),
           (double 5 10, double 6 10)])]"
  using line_valid tokens_nonblank [OF split_examples(1)] by (simp add: loads_def)

lemma parse_line_exn:
  assumes "\<not> blank l" and "parse_line l = Inl e"
  shows "e = ValueError \<or> e = IndexError"
proof -
  from nonblank_has_token [OF assms(1)] obtain t ts
    where "str_split (str_strip l) = t # ts"
    by (cases "str_split (str_strip l)") auto
  from parse_line_tokens [OF this] assms(2) show ?thesis
    by (auto split: option.splits if_splits)
qed

lemma loads_two_valid:
  "loads [''0 0.1 0.2 0.3 0.4 0.5 0.6'', [CHR 0x0A], ''0 0.1 0.2 0.3 0.4 0.5 0.6'']
     [(0, [(double 1 10, double 2 10), (double 3 10, double 4 10),
           (double 5 10, double 6 10)]),
      (0, [(double 1 10, double 2 10), (double 3 10, double 4 10),
           (double 5 10, double 6 10)])]"
  using line_valid tokens_nonblank [OF split_examples(1)] blank_examples
  by (simp add: loads_def)

lemma load_single_valid:
  "fs p = Some [''0 0.1 0.2 0.3 0.4 0.5 0.6''] \<Longrightarrow> load_yolo_labels fs p = Inr [
      (0, [(double 1 10, double 2 10), (double 3 10, double 4 10),
           (double 5 10, double 6 10)])]"
  using read_lines_loads [OF loads_valid, of "[]"] by (simp add: load_yolo_labels_def)

lemma load_single_class_id:
  "fs p = Some [''5''] \<Longrightarrow> load_yolo_labels fs p = Inr [(5, [])]"
  using tokens_nonblank [OF split_examples(8)]
  by (simp add: load_yolo_labels_def parse_line_tokens [OF split_examples(8)] int_tokens)

lemma load_single_odd:
  "fs p = Some [''0 0.1 0.2 0.3''] \<Longrightarrow> load_yolo_labels fs p = Inl IndexError"
  using tokens_nonblank [OF split_examples(4)] line_odd
  by (simp add: load_yolo_labels_def)

lemma read_lines_exn: "read_lines ls acc = Inl e \<Longrightarrow> e = ValueError \<or> e = IndexError"
proof (induction ls arbitrary: acc)
  case Nil
  then show ?case by simp
next
  case (Cons l ls)
  show ?case
  proof (cases "blank l")
    case True
    with Cons show ?thesis by simp
  next
    case False
    show ?thesis
    proof (cases "parse_line l")
      case (Inl x)
      with False Cons.prems have "x = e" by simp
      with parse_line_exn [OF False Inl] show ?thesis by simp
    next
      case (Inr r)
      with False Cons.prems have "read_lines ls (acc @ [r]) = Inl e" by simp
      then show ?thesis by (rule Cons.IH)
    qed
  qed
qed

lemma loaded_length: "loaded fs ps res \<Longrightarrow> length res = length ps"
  by (simp add: loaded_def list_all2_lengthD)

section \<open>The claims\<close>

text \<open>
  C1, as amended. The loader keeps no error list and recovers from nothing. When every
  line of the file that is not blank gets through the loop body, the call returns one
  record for each such line, in line order. When some line does not, the call raises
  the exception of the first such line, a \<open>ValueError\<close> or an \<open>IndexError\<close>, and
  returns no record at all, whatever follows that line.
\<close>

theorem load_yolo_labels_all_or_first_failure:
  "(fs p = Some lines \<and> loads lines rs \<longrightarrow>
      load_yolo_labels fs p = Inr rs \<and>
      length rs = length (filter (\<lambda>l. \<not> blank l) lines)) \<and>
   (fs p = Some (pre @ l # post) \<and> loads pre rs \<and> \<not> blank l \<and> parse_line l = Inl e \<longrightarrow>
      load_yolo_labels fs p = Inl e \<and> (e = ValueError \<or> e = IndexError))"
proof (intro conjI impI)
  assume a: "fs p = Some lines \<and> loads lines rs"
  then show "load_yolo_labels fs p = Inr rs"
    using read_lines_loads [of lines rs "[]"] by (simp add: load_yolo_labels_def)
  from a show "length rs = length (filter (\<lambda>l. \<not> blank l) lines)"
    by (simp add: loads_length)
next
  assume a: "fs p = Some (pre @ l # post) \<and> loads pre rs \<and> \<not> blank l \<and> parse_line l = Inl e"
  then show "load_yolo_labels fs p = Inl e"
    using load_failure_in_context [of fs p pre l post rs e] by simp
  from a show "e = ValueError \<or> e = IndexError"
    using parse_line_exn [of l e] by simp
qed

theorem load_yolo_labels_all_or_first_failure_witness:
  "load_yolo_labels
     [''a.txt'' \<mapsto> [''0 0.1 0.2 0.3 0.4 0.5 0.6'', [CHR 0x0A], ''0 0.1 0.2 0.3 0.4 0.5 0.6'']]
     ''a.txt'' =
   Inr [(0, [(double 1 10, double 2 10), (double 3 10, double 4 10),
             (double 5 10, double 6 10)]),
        (0, [(double 1 10, double 2 10), (double 3 10, double 4 10),
             (double 5 10, double 6 10)])] \<and>
   load_yolo_labels
     [''a.txt'' \<mapsto> [''0 0.1 0.2 0.3 0.4 0.5 0.6'', ''0 0.1 0.2 0.3'',
                    ''0 0.1 0.2 0.3 0.4 0.5 0.6'']]
     ''a.txt'' = Inl IndexError"
proof
  show "load_yolo_labels
     [''a.txt'' \<mapsto> [''0 0.1 0.2 0.3 0.4 0.5 0.6'', [CHR 0x0A], ''0 0.1 0.2 0.3 0.4 0.5 0.6'']]
     ''a.txt'' =
   Inr [(0, [(double 1 10, double 2 10), (double 3 10, double 4 10),
             (double 5 10, double 6 10)]),
        (0, [(double 1 10, double 2 10), (double 3 10, double 4 10),
             (double 5 10, double 6 10)])]"
    using load_yolo_labels_all_or_first_failure
      [where fs = "[''a.txt'' \<mapsto> [''0 0.1 0.2 0.3 0.4 0.5 0.6'', [CHR 0x0A],
                                  ''0 0.1 0.2 0.3 0.4 0.5 0.6'']]"
         and p = "''a.txt''"
         and lines = "[''0 0.1 0.2 0.3 0.4 0.5 0.6'', [CHR 0x0A], ''0 0.1 0.2 0.3 0.4 0.5 0.6'']",
       THEN conjunct1]
      loads_two_valid
    by simp
  show "load_yolo_labels
     [''a.txt'' \<mapsto> [''0 0.1 0.2 0.3 0.4 0.5 0.6'', ''0 0.1 0.2 0.3'',
                    ''0 0.1 0.2 0.3 0.4 0.5 0.6'']]
     ''a.txt'' = Inl IndexError"
    using load_yolo_labels_all_or_first_failure
      [where fs = "[''a.txt'' \<mapsto> [''0 0.1 0.2 0.3 0.4 0.5 0.6'', ''0 0.1 0.2 0.3'',
                                  ''0 0.1 0.2 0.3 0.4 0.5 0.6'']]"
         and p = "''a.txt''" and pre = "[''0 0.1 0.2 0.3 0.4 0.5 0.6'']"
         and l = "''0 0.1 0.2 0.3''" and post = "[''0 0.1 0.2 0.3 0.4 0.5 0.6'']"
         and e = IndexError,
       THEN conjunct2]
      loads_valid line_odd tokens_nonblank [OF split_examples(4)]
    by simp
qed

text \<open>
  C1 as stated fails: a file with one valid line followed by one invalid line gives
  neither one record nor one error; the call raises \<open>ValueError\<close>.
\<close>

theorem mixed_file_counterexample:
  "load_yolo_labels
     [''a.txt'' \<mapsto> [''0 0.1 0.2 0.3 0.4 0.5 0.6'', ''abc 0.1 0.2 0.3 0.4 0.5 0.6'']]
     ''a.txt'' = Inl ValueError"
  using load_failure_in_context
    [where fs = "[''a.txt'' \<mapsto> [''0 0.1 0.2 0.3 0.4 0.5 0.6'', ''abc 0.1 0.2 0.3 0.4 0.5 0.6'']]"
       and p = "''a.txt''" and pre = "[''0 0.1 0.2 0.3 0.4 0.5 0.6'']"
       and line = "''abc 0.1 0.2 0.3 0.4 0.5 0.6''" and post = "[]" and e = ValueError]
    loads_valid line_bad_class tokens_nonblank [OF split_examples(2)]
  by simp

text \<open>
  C2. The docstring promises an empty list for a file that does not exist; \<open>open\<close>
  raises instead, and nothing catches it: on a path that names no file the call ends
  with \<open>FileNotFoundError\<close>.
\<close>

theorem missing_file_raises:
  "load_yolo_labels Map.empty ''.labels/missing.txt'' = Inl FileNotFoundError"
  by (simp add: load_yolo_labels_def)

text \<open>
  C3, as amended. In a file whose other lines load, a line whose first token \<open>int\<close>
  accepts as a non-negative integer (so of at most 4300 digits), followed by an even
  number, at least six, of tokens that \<open>float\<close> accepts, each with a value in [0, 1],
  yields exactly one record, at the line's place among the records of the file: the
  class id is the parsed integer and the points are the parsed values paired in order.
  No exception is raised. The line of the scenario, alone in its file, is the witness.
\<close>

theorem valid_line_yields_record:
  assumes "fs p = Some (pre @ line # post)" and "loads pre ra" and "loads post rb"
    and "str_split (str_strip line) = t # ts"
    and "py_int t = Some c" and "0 \<le> c"
    and "floats ts vs" and "even (length ts)" and "6 \<le> length ts"
    and "\<forall>v \<in> set vs. in_unit v"
  shows "load_yolo_labels fs p = Inr (ra @ (c, pairs vs) # rb)"
  by (rule load_line_in_context [where fs = fs and p = p, OF assms(1-3)
        tokens_nonblank [OF assms(4)] parse_line_ok [OF assms(4,5,7,8)]])

theorem valid_line_yields_record_witness:
  "load_yolo_labels [''a.txt'' \<mapsto> [''0 0.1 0.2 0.3 0.4 0.5 0.6'']] ''a.txt'' =
     Inr [(0, [(double 1 10, double 2 10), (double 3 10, double 4 10),
               (double 5 10, double 6 10)])]"
  using valid_line_yields_record
    [where fs = "[''a.txt'' \<mapsto> [''0 0.1 0.2 0.3 0.4 0.5 0.6'']]" and p = "''a.txt''"
       and pre = "[]" and post = "[]" and ra = "[]" and rb = "[]"
       and line = "''0 0.1 0.2 0.3 0.4 0.5 0.6''" and t = "''0''"
       and ts = "[''0.1'', ''0.2'', ''0.3'', ''0.4'', ''0.5'', ''0.6'']" and c = 0
       and vs = "[double 1 10, double 2 10, double 3 10, double 4 10, double 5 10,
                  double 6 10]"]
  by (simp add: split_examples int_tokens float_tokens floats_def loads_Nil unit_examples)

text \<open>
  C3 as stated fails twice over. The scenario's valid line yields no record when a later
  line of the file is malformed: the call raises \<open>ValueError\<close>. And a line that is valid
  but for the length of its class id, 4301 digits, raises \<open>ValueError\<close> itself.
\<close>

theorem valid_line_counterexample:
  "load_yolo_labels [''a.txt'' \<mapsto> [''0 0.1 0.2 0.3 0.4 0.5 0.6'', ''0 0.1 x 0.3'']] ''a.txt'' = Inl ValueError \<and>
   load_yolo_labels
     [''a.txt'' \<mapsto> [replicate 4301 CHR ''1'' @ '' 0.1 0.2 0.3 0.4 0.5 0.6'']] ''a.txt'' =
     Inl ValueError"
proof
  show "load_yolo_labels [''a.txt'' \<mapsto> [''0 0.1 0.2 0.3 0.4 0.5 0.6'', ''0 0.1 x 0.3'']] ''a.txt'' = Inl ValueError"
    using load_failure_in_context
      [where fs = "[''a.txt'' \<mapsto> [''0 0.1 0.2 0.3 0.4 0.5 0.6'', ''0 0.1 x 0.3'']]" and p = "''a.txt''"
         and pre = "[''0 0.1 0.2 0.3 0.4 0.5 0.6'']" and line = "''0 0.1 x 0.3''" and post = "[]"
         and e = ValueError]
      loads_valid line_bad_float tokens_nonblank [OF split_examples(5)]
    by simp
  show "load_yolo_labels
     [''a.txt'' \<mapsto> [replicate 4301 CHR ''1'' @ '' 0.1 0.2 0.3 0.4 0.5 0.6'']] ''a.txt'' =
     Inl ValueError"
    using load_failure_in_context
      [where fs = "[''a.txt'' \<mapsto> [replicate 4301 CHR ''1'' @ '' 0.1 0.2 0.3 0.4 0.5 0.6'']]"
         and p = "''a.txt''" and pre = "[]"
         and line = "replicate 4301 CHR ''1'' @ '' 0.1 0.2 0.3 0.4 0.5 0.6''"
         and post = "[]" and rs = "[]" and e = ValueError]
      line_long_class_id tokens_nonblank [OF split_long_class_id]
    by (simp add: loads_Nil)
qed

text \<open>
  C4, as amended. A line whose first token \<open>int\<close> rejects, or one of whose coordinate
  tokens \<open>float\<close> rejects, makes the call raise \<open>ValueError\<close> when the loop reaches it:
  no error is recorded, the records of the earlier lines are lost with the call, and the
  lines after it are not scanned.
\<close>

theorem malformed_number_raises_ValueError:
  assumes "fs p = Some (pre @ line # post)" and "loads pre rs"
    and "str_split (str_strip line) = t # ts"
    and "py_int t = None \<or> (\<exists>u \<in> set ts. py_float u = None)"
  shows "load_yolo_labels fs p = Inl ValueError"
proof -
  from assms(4) have "parse_line line = Inl ValueError"
    by (auto simp: parse_line_tokens [OF assms(3)] split: option.splits)
  from load_failure_in_context [where fs = fs and p = p, OF assms(1,2)
      tokens_nonblank [OF assms(3)] this]
  show ?thesis .
qed

theorem malformed_number_raises_ValueError_witness:
  "load_yolo_labels [''a.txt'' \<mapsto> [''0 0.1 0.2 0.3 0.4 0.5 0.6'', ''0 0.1 x 0.3'', ''0 0.1 0.2 0.3 0.4 0.5 0.6'']] ''a.txt'' = Inl ValueError"
  using malformed_number_raises_ValueError
    [where fs = "[''a.txt'' \<mapsto> [''0 0.1 0.2 0.3 0.4 0.5 0.6'', ''0 0.1 x 0.3'',
                                ''0 0.1 0.2 0.3 0.4 0.5 0.6'']]"
       and p = "''a.txt''" and pre = "[''0 0.1 0.2 0.3 0.4 0.5 0.6'']"
       and post = "[''0 0.1 0.2 0.3 0.4 0.5 0.6'']" and line = "''0 0.1 x 0.3''"
       and t = "''0''" and ts = "[''0.1'', ''x'', ''0.3'']"]
    loads_valid
  by (simp add: split_examples float_tokens)

text \<open>
  C4 as stated fails: with a malformed class id on the first line and a valid second
  line, the call does not go on to the second line; it raises \<open>ValueError\<close>.
\<close>

theorem malformed_class_id_counterexample:
  "load_yolo_labels [''a.txt'' \<mapsto> [''abc 0.1 0.2 0.3 0.4 0.5 0.6'', ''0 0.1 0.2 0.3 0.4 0.5 0.6'']] ''a.txt'' =
     Inl ValueError"
  using load_failure_in_context
    [where fs = "[''a.txt'' \<mapsto> [''abc 0.1 0.2 0.3 0.4 0.5 0.6'', ''0 0.1 0.2 0.3 0.4 0.5 0.6'']]"
       and p = "''a.txt''" and pre = "[]" and line = "''abc 0.1 0.2 0.3 0.4 0.5 0.6''"
       and post = "[''0 0.1 0.2 0.3 0.4 0.5 0.6'']" and rs = "[]" and e = ValueError]
    line_bad_class tokens_nonblank [OF split_examples(2)]
  by (simp add: loads_Nil)

text \<open>
  C5, as amended. A line with an odd number of coordinate tokens yields no record and no
  recorded error, and the scan does not continue: the call raises. The exception is
  \<open>IndexError\<close>, from the read of \<open>parts[i + 1]\<close> past the end, when the class id and
  every coordinate token parse; it is \<open>ValueError\<close> when one of them does not, since
  that conversion comes first. Neither carries a line number.
\<close>

theorem odd_coordinate_count_raises:
  assumes "fs p = Some (pre @ line # post)" and "loads pre rs"
    and "str_split (str_strip line) = t # ts"
    and "odd (length ts)"
  shows "load_yolo_labels fs p =
     Inl (if py_int t = None \<or> (\<exists>u \<in> set ts. py_float u = None) then ValueError
          else IndexError)"
proof -
  from assms(4) have "parse_line line =
     Inl (if py_int t = None \<or> (\<exists>u \<in> set ts. py_float u = None) then ValueError
          else IndexError)"
    by (auto simp: parse_line_tokens [OF assms(3)] split: option.splits)
  from load_failure_in_context [where fs = fs and p = p, OF assms(1,2)
      tokens_nonblank [OF assms(3)] this]
  show ?thesis .
qed

theorem odd_coordinate_count_raises_witness:
  "load_yolo_labels [''a.txt'' \<mapsto> [''0 0.1 0.2 0.3 0.4 0.5 0.6'', ''0 0.1 0.2 0.3'']] ''a.txt'' = Inl IndexError"
  using odd_coordinate_count_raises
    [where fs = "[''a.txt'' \<mapsto> [''0 0.1 0.2 0.3 0.4 0.5 0.6'', ''0 0.1 0.2 0.3'']]" and p = "''a.txt''"
       and pre = "[''0 0.1 0.2 0.3 0.4 0.5 0.6'']" and post = "[]" and line = "''0 0.1 0.2 0.3''"
       and t = "''0''" and ts = "[''0.1'', ''0.2'', ''0.3'']"]
    loads_valid
  by (simp add: split_examples int_tokens float_tokens)

text \<open>
  C5 as stated fails: with three coordinate tokens on the first line and a valid second
  line, the call raises \<open>IndexError\<close> instead of going on to the second line.
\<close>

theorem odd_coordinate_count_counterexample:
  "load_yolo_labels [''a.txt'' \<mapsto> [''0 0.1 0.2 0.3'', ''0 0.1 0.2 0.3 0.4 0.5 0.6'']] ''a.txt'' = Inl IndexError"
  using load_failure_in_context
    [where fs = "[''a.txt'' \<mapsto> [''0 0.1 0.2 0.3'', ''0 0.1 0.2 0.3 0.4 0.5 0.6'']]"
       and p = "''a.txt''" and pre = "[]" and line = "''0 0.1 0.2 0.3''"
       and post = "[''0 0.1 0.2 0.3 0.4 0.5 0.6'']" and rs = "[]" and e = IndexError]
    line_odd tokens_nonblank [OF split_examples(4)]
  by (simp add: loads_Nil)







text \<open>
  C8, as amended. The module-level loop calls \<open>load_yolo_labels\<close> on the entries of the
  listing that end in \<open>.txt\<close>, in listing order, and prints what each call returns. As
  long as every call returns, there is one result per matching entry, in that order. The
  loop catches nothing: when a line of a file makes the call raise, a \<open>ValueError\<close> or an
  \<open>IndexError\<close>, the loop ends after the announcement of that file, and no later entry
  is loaded.
\<close>

theorem main_loop_all_or_first_line_exception:
  "(listdir labels_dir = Some es \<and> loaded fs (txt_entries es) res \<longrightarrow>
      main fs listdir = (printed (zip (txt_entries es) res), None) \<and>
      length res = length (txt_entries es)) \<and>
   (listdir labels_dir = Some (pre @ e # post) \<and> loaded fs (txt_entries pre) res \<and>
    endswith e ''.txt'' \<and> fs (path_join labels_dir e) = Some ls \<and>
    load_yolo_labels fs (path_join labels_dir e) = Inl x \<longrightarrow>
      main fs listdir =
        (printed (zip (txt_entries pre) res) @ [Loading (path_join labels_dir e)], Some x) \<and>
      (x = ValueError \<or> x = IndexError))"
proof (intro conjI impI)
  assume a: "listdir labels_dir = Some es \<and> loaded fs (txt_entries es) res"
  then show "main fs listdir = (printed (zip (txt_entries es) res), None)"
    using load_all_loaded [of fs es res "[]"] by (simp add: main_def)
  from a show "length res = length (txt_entries es)"
    using loaded_length [of fs "txt_entries es" res] by simp
next
  assume a: "listdir labels_dir = Some (pre @ e # post) \<and> loaded fs (txt_entries pre) res \<and>
    endswith e ''.txt'' \<and> fs (path_join labels_dir e) = Some ls \<and>
    load_yolo_labels fs (path_join labels_dir e) = Inl x"
  then show "main fs listdir =
      (printed (zip (txt_entries pre) res) @ [Loading (path_join labels_dir e)], Some x)"
    using load_all_first_failure [of fs pre res e x post "[]"] by (simp add: main_def)
  from a have "read_lines ls [] = Inl x" by (auto simp: load_yolo_labels_def)
  then show "x = ValueError \<or> x = IndexError" by (rule read_lines_exn)
qed

theorem main_loop_all_or_first_line_exception_witness:
  "main [''.labels/a.txt'' \<mapsto> [''0 0.1 0.2 0.3 0.4 0.5 0.6''], ''.labels/b.txt'' \<mapsto> [''5'']]
        [''.labels'' \<mapsto> [''a.txt'', ''notes.md'', ''b.txt'']] =
     ([Loading ''.labels/a.txt'',
       Loaded [(0, [(double 1 10, double 2 10), (double 3 10, double 4 10),
                 (double 5 10, double 6 10)])],
       Loading ''.labels/b.txt'', Loaded [(5, [])]], None) \<and>
   main [''.labels/a.txt'' \<mapsto> [''0 0.1 0.2 0.3 0.4 0.5 0.6''],
         ''.labels/b.txt'' \<mapsto> [''0 0.1 0.2 0.3''], ''.labels/c.txt'' \<mapsto> [''5'']]
        [''.labels'' \<mapsto> [''a.txt'', ''b.txt'', ''c.txt'']] =
     ([Loading ''.labels/a.txt'',
       Loaded [(0, [(double 1 10, double 2 10), (double 3 10, double 4 10),
                 (double 5 10, double 6 10)])],
       Loading ''.labels/b.txt''], Some IndexError)"
proof
  show "main [''.labels/a.txt'' \<mapsto> [''0 0.1 0.2 0.3 0.4 0.5 0.6''], ''.labels/b.txt'' \<mapsto> [''5'']]
        [''.labels'' \<mapsto> [''a.txt'', ''notes.md'', ''b.txt'']] =
     ([Loading ''.labels/a.txt'',
       Loaded [(0, [(double 1 10, double 2 10), (double 3 10, double 4 10),
                 (double 5 10, double 6 10)])],
       Loading ''.labels/b.txt'', Loaded [(5, [])]], None)"
    using main_loop_all_or_first_line_exception
      [where fs = "[''.labels/a.txt'' \<mapsto> [''0 0.1 0.2 0.3 0.4 0.5 0.6''], ''.labels/b.txt'' \<mapsto> [''5'']]"
         and listdir = "[''.labels'' \<mapsto> [''a.txt'', ''notes.md'', ''b.txt'']]"
         and es = "[''a.txt'', ''notes.md'', ''b.txt'']"
         and res = "[[(0, [(double 1 10, double 2 10), (double 3 10, double 4 10),
                 (double 5 10, double 6 10)])],
                     [(5, [])]]",
       THEN conjunct1]
    by (simp add: labels_dir_def txt_entries_def endswith_def loaded_def path_join_def
        load_single_valid load_single_class_id)
  show "main [''.labels/a.txt'' \<mapsto> [''0 0.1 0.2 0.3 0.4 0.5 0.6''],
         ''.labels/b.txt'' \<mapsto> [''0 0.1 0.2 0.3''], ''.labels/c.txt'' \<mapsto> [''5'']]
        [''.labels'' \<mapsto> [''a.txt'', ''b.txt'', ''c.txt'']] =
     ([Loading ''.labels/a.txt'',
       Loaded [(0, [(double 1 10, double 2 10), (double 3 10, double 4 10),
                 (double 5 10, double 6 10)])],
       Loading ''.labels/b.txt''], Some IndexError)"
    using main_loop_all_or_first_line_exception
      [where fs = "[''.labels/a.txt'' \<mapsto> [''0 0.1 0.2 0.3 0.4 0.5 0.6''],
                    ''.labels/b.txt'' \<mapsto> [''0 0.1 0.2 0.3''], ''.labels/c.txt'' \<mapsto> [''5'']]"
         and listdir = "[''.labels'' \<mapsto> [''a.txt'', ''b.txt'', ''c.txt'']]"
         and pre = "[''a.txt'']" and e = "''b.txt''" and post = "[''c.txt'']"
         and res = "[[(0, [(double 1 10, double 2 10), (double 3 10, double 4 10),
                 (double 5 10, double 6 10)])]]"
         and ls = "[''0 0.1 0.2 0.3'']" and x = IndexError,
       THEN conjunct2]
    by (simp add: labels_dir_def txt_entries_def endswith_def loaded_def path_join_def
        load_single_valid load_single_odd)
qed

text \<open>
  C8 as stated fails: with \<open>a.txt\<close> and \<open>b.txt\<close> listed and a line of three
  coordinates in \<open>a.txt\<close>, the loop gives no result for \<open>a.txt\<close> and never reaches
  \<open>b.txt\<close>, a valid file; it ends with \<open>IndexError\<close>.
\<close>

theorem malformed_file_aborts_loop_counterexample:
  "main [''.labels/a.txt'' \<mapsto> [''0 0.1 0.2 0.3''], ''.labels/b.txt'' \<mapsto> [''0 0.1 0.2 0.3 0.4 0.5 0.6'']]
        [''.labels'' \<mapsto> [''a.txt'', ''b.txt'']] =
     ([Loading ''.labels/a.txt''], Some IndexError)"
  by (simp add: main_def labels_dir_def endswith_def path_join_def load_single_odd)

text \<open>
  C9, as amended. In a file whose other lines load, a line that is a single token
  accepted by \<open>int\<close> yields a record with that class id and an empty polygon, at the
  line's place among the records, and no exception: the range of the comprehension is
  empty, and zero points are accepted.
\<close>

theorem class_id_only_line_yields_empty_polygon:
  assumes "fs p = Some (pre @ line # post)" and "loads pre ra" and "loads post rb"
    and "str_split (str_strip line) = [t]"
    and "py_int t = Some c"
  shows "load_yolo_labels fs p = Inr (ra @ (c, []) # rb)"
proof -
  have "parse_line line = Inr (c, pairs [])"
    using parse_line_ok [OF assms(4,5), of "[]"] by (simp add: floats_def)
  from load_line_in_context [where fs = fs and p = p, OF assms(1-3)
      tokens_nonblank [OF assms(4)] this]
  show ?thesis by simp
qed

theorem class_id_only_line_yields_empty_polygon_witness:
  "load_yolo_labels [''a.txt'' \<mapsto> [''5'']] ''a.txt'' = Inr [(5, [])]"
  using class_id_only_line_yields_empty_polygon
    [where fs = "[''a.txt'' \<mapsto> [''5'']]" and p = "''a.txt''"
       and pre = "[]" and post = "[]" and ra = "[]" and rb = "[]"
       and line = "''5''" and t = "''5''" and c = 5]
  by (simp add: split_examples int_tokens loads_Nil)

text \<open>
  C9 as stated fails: the line \<open>5\<close> yields no record when a line before it or after it
  is malformed; the call raises \<open>ValueError\<close> and returns nothing.
\<close>

theorem class_id_only_line_counterexample:
  "load_yolo_labels [''a.txt'' \<mapsto> [''x'', ''5'']] ''a.txt'' = Inl ValueError \<and>
   load_yolo_labels [''a.txt'' \<mapsto> [''5'', ''x'']] ''a.txt'' = Inl ValueError"
proof
  show "load_yolo_labels [''a.txt'' \<mapsto> [''x'', ''5'']] ''a.txt'' = Inl ValueError"
    using load_failure_in_context
      [where fs = "[''a.txt'' \<mapsto> [''x'', ''5'']]" and p = "''a.txt''"
         and pre = "[]" and line = "''x''" and post = "[''5'']" and rs = "[]"
         and e = ValueError]
      line_no_number tokens_nonblank [OF split_examples(9)]
    by (simp add: loads_Nil)
  have "loads [''5''] [(5, [])]"
    using line_class_id tokens_nonblank [OF split_examples(8)] by (simp add: loads_def)
  then show "load_yolo_labels [''a.txt'' \<mapsto> [''5'', ''x'']] ''a.txt'' = Inl ValueError"
    using load_failure_in_context
      [where fs = "[''a.txt'' \<mapsto> [''5'', ''x'']]" and p = "''a.txt''"
         and pre = "[''5'']" and line = "''x''" and post = "[]" and e = ValueError]
      line_no_number tokens_nonblank [OF split_examples(9)]
    by simp
qed

text \<open>
  C10, as amended. The class id is never compared with 0: in a file whose other lines
  load, a line whose first token is a negative integer, followed by an even number of
  tokens that \<open>float\<close> accepts, yields a record with that negative class id.
\<close>

theorem negative_class_id_is_kept:
  assumes "fs p = Some (pre @ line # post)" and "loads pre ra" and "loads post rb"
    and "str_split (str_strip line) = t # ts"
    and "py_int t = Some c" and "c < 0"
    and "floats ts vs" and "even (length ts)"
  shows "load_yolo_labels fs p = Inr (ra @ (c, pairs vs) # rb)"
  by (rule load_line_in_context [where fs = fs and p = p, OF assms(1-3)
        tokens_nonblank [OF assms(4)] parse_line_ok [OF assms(4,5,7,8)]])

theorem negative_class_id_is_kept_witness:
  "load_yolo_labels [''a.txt'' \<mapsto> [''-1 0.1 0.2 0.3 0.4 0.5 0.6'']] ''a.txt'' =
     Inr [(- 1, [(double 1 10, double 2 10), (double 3 10, double 4 10),
                 (double 5 10, double 6 10)])]"
  using negative_class_id_is_kept
    [where fs = "[''a.txt'' \<mapsto> [''-1 0.1 0.2 0.3 0.4 0.5 0.6'']]" and p = "''a.txt''"
       and pre = "[]" and post = "[]" and ra = "[]" and rb = "[]"
       and line = "''-1 0.1 0.2 0.3 0.4 0.5 0.6''" and t = "''-1''"
       and ts = "[''0.1'', ''0.2'', ''0.3'', ''0.4'', ''0.5'', ''0.6'']" and c = "- 1"
       and vs = "[double 1 10, double 2 10, double 3 10, double 4 10, double 5 10,
                  double 6 10]"]
  by (simp add: split_examples int_tokens float_tokens floats_def loads_Nil)

text \<open>
  C10 as stated fails: a negative class id does not make a line load. With one
  coordinate token after \<open>-1\<close> the call raises \<open>IndexError\<close>, and with a malformed line
  after a good line of class \<open>-1\<close> it raises \<open>ValueError\<close>; neither returns a record.
\<close>

theorem negative_class_id_counterexample:
  "load_yolo_labels [''a.txt'' \<mapsto> [''-1 0.1'']] ''a.txt'' = Inl IndexError \<and>
   load_yolo_labels [''a.txt'' \<mapsto> [''-1 0.1 0.2 0.3 0.4 0.5 0.6'', ''x'']] ''a.txt'' =
     Inl ValueError"
proof
  show "load_yolo_labels [''a.txt'' \<mapsto> [''-1 0.1'']] ''a.txt'' = Inl IndexError"
    using load_failure_in_context
      [where fs = "[''a.txt'' \<mapsto> [''-1 0.1'']]" and p = "''a.txt''"
         and pre = "[]" and line = "''-1 0.1''" and post = "[]" and rs = "[]"
         and e = IndexError]
      line_negative_odd tokens_nonblank [OF split_examples(10)]
    by (simp add: loads_Nil)
  have "loads [''-1 0.1 0.2 0.3 0.4 0.5 0.6'']
          [(- 1, [(double 1 10, double 2 10), (double 3 10, double 4 10),
                  (double 5 10, double 6 10)])]"
    using line_negative tokens_nonblank [OF split_examples(3)] by (simp add: loads_def)
  then show "load_yolo_labels [''a.txt'' \<mapsto> [''-1 0.1 0.2 0.3 0.4 0.5 0.6'', ''x'']] ''a.txt'' =
     Inl ValueError"
    using load_failure_in_context
      [where fs = "[''a.txt'' \<mapsto> [''-1 0.1 0.2 0.3 0.4 0.5 0.6'', ''x'']]" and p = "''a.txt''"
         and pre = "[''-1 0.1 0.2 0.3 0.4 0.5 0.6'']" and line = "''x''" and post = "[]"
         and e = ValueError]
      line_no_number tokens_nonblank [OF split_examples(9)]
    by simp
qed

end
